theory Spec2Isabelle
  imports Complex_Main "HOL-Library.AList" "HOL-Library.Sublist"
begin

text \<open>
  A model of the server side of the analytics template: the tracking endpoint
  (\<^verbatim>\<open>POST\<close> and \<^verbatim>\<open>GET\<close> of \<^verbatim>\<open>src/app/api/track/route.ts\<close>) and the edge
  middleware in front of it (\<^verbatim>\<open>validateTrackingRequest\<close> of
  \<^verbatim>\<open>middleware.ts\<close>). What the handlers take from outside is a parameter of
  the model: the environment variables, the clock, \<^verbatim>\<open>JSON.parse\<close>, the outcome of
  each \<^verbatim>\<open>fetch\<close>, and the generated schema module. An exception is a value: each
  \<^verbatim>\<open>try\<close> block returns a fault or a result, and the handler around it is the
  \<^verbatim>\<open>catch\<close>.
\<close>

section \<open>JavaScript values\<close>

text \<open>
  The tracking endpoint and the edge middleware exchange JSON. A JSON value is what
  \<^verbatim>\<open>JSON.parse\<close> returns; an object is the list of its own properties in
  insertion order. A JavaScript expression that may be \<^verbatim>\<open>undefined\<close> has type
  \<open>json option\<close>, with \<open>None\<close> for \<^verbatim>\<open>undefined\<close>.

  A number is a double as \<^verbatim>\<open>JSON.parse\<close> can return one: finite (its value, a
  rational; rounding the text to a double is the parser's work), negative zero, or
  infinite with its sign (the text \<^verbatim>\<open>1e400\<close> is read as \<^verbatim>\<open>Infinity\<close>, the
  flag is true for the negative one). No JSON text gives \<^verbatim>\<open>NaN\<close>.
\<close>

datatype number = Finite rat | NegZero | Infinite bool

datatype json =
    JNull
  | JBool bool
  | JNum number
  | JStr string
  | JArr "json list"
  | JObj "(string \<times> json) list"

text \<open>Truthiness, as \<^verbatim>\<open>!x\<close> and \<^verbatim>\<open>x || y\<close> test it.\<close>

fun number_truthy :: "number \<Rightarrow> bool" where
  "number_truthy (Finite q) = (q \<noteq> 0)"
| "number_truthy NegZero = False"
| "number_truthy (Infinite negative) = True"

fun truthy :: "json \<Rightarrow> bool" where
  "truthy JNull = False"
| "truthy (JBool b) = b"
| "truthy (JNum n) = number_truthy n"
| "truthy (JStr s) = (s \<noteq> [])"
| "truthy (JArr xs) = True"
| "truthy (JObj kvs) = True"

fun truthy_opt :: "json option \<Rightarrow> bool" where
  "truthy_opt None = False"
| "truthy_opt (Some v) = truthy v"

text \<open>
  Property access \<^verbatim>\<open>v.k\<close> on a value that is not \<^verbatim>\<open>null\<close>, for the property
  names the code reads (\<^verbatim>\<open>event\<close>, \<^verbatim>\<open>properties\<close>, \<^verbatim>\<open>userId\<close>): only an
  object can hold them.
\<close>

fun get_prop :: "json \<Rightarrow> string \<Rightarrow> json option" where
  "get_prop (JObj kvs) k = map_of kvs k"
| "get_prop v k = None"

text \<open>
  An object literal as \<^verbatim>\<open>JSON.stringify\<close> writes it: a property whose value is
  \<^verbatim>\<open>undefined\<close> is left out.
\<close>

fun obj_fields :: "(string \<times> json option) list \<Rightarrow> (string \<times> json) list" where
  "obj_fields [] = []"
| "obj_fields ((k, None) # kvs) = obj_fields kvs"
| "obj_fields ((k, Some v) # kvs) = (k, v) # obj_fields kvs"

definition obj :: "(string \<times> json option) list \<Rightarrow> json" where
  "obj kvs = JObj (obj_fields kvs)"

text \<open>
  What a reader gets from the text that \<^verbatim>\<open>JSON.stringify\<close> writes for a value: an
  infinite number is written as \<^verbatim>\<open>null\<close> and negative zero as \<^verbatim>\<open>0\<close>; a
  finite number is written with the digits that read back as the same double, and
  everything else as it is.
\<close>

fun number_on_the_wire :: "number \<Rightarrow> json" where
  "number_on_the_wire (Finite q) = JNum (Finite q)"
| "number_on_the_wire NegZero = JNum (Finite 0)"
| "number_on_the_wire (Infinite negative) = JNull"

primrec on_the_wire :: "json \<Rightarrow> json" where
  "on_the_wire JNull = JNull"
| "on_the_wire (JBool b) = JBool b"
| "on_the_wire (JNum n) = number_on_the_wire n"
| "on_the_wire (JStr s) = JStr s"
| "on_the_wire (JArr xs) = JArr (map on_the_wire xs)"
| "on_the_wire (JObj kvs) = JObj (map (map_prod id on_the_wire) kvs)"

text \<open>A value that \<^verbatim>\<open>JSON.stringify\<close> writes back as it is.\<close>

primrec plain_number :: "number \<Rightarrow> bool" where
  "plain_number (Finite q) = True"
| "plain_number NegZero = False"
| "plain_number (Infinite negative) = False"

primrec plain :: "json \<Rightarrow> bool" where
  "plain JNull = True"
| "plain (JBool b) = True"
| "plain (JNum n) = plain_number n"
| "plain (JStr s) = True"
| "plain (JArr xs) = list_all (\<lambda>b. b) (map plain xs)"
| "plain (JObj kvs) = list_all (\<lambda>b. b) (map (\<lambda>kv. snd kv) (map (map_prod id plain) kvs))"

text \<open>Decimal numerals, for the index keys of a spread string or array.\<close>

fun string_of_nat :: "nat \<Rightarrow> string" where
  "string_of_nat n =
     (if n < 10 then [''0123456789'' ! n]
      else string_of_nat (n div 10) @ [''0123456789'' ! (n mod 10)])"

text \<open>
  Object spread \<^verbatim>\<open>{...v}\<close>: the own enumerable properties of \<open>v\<close>. An object gives
  its properties, a string its characters and an array its elements under their indices,
  anything else (also \<^verbatim>\<open>undefined\<close> and \<^verbatim>\<open>null\<close>) nothing.
\<close>

fun spread :: "json option \<Rightarrow> (string \<times> json) list" where
  "spread (Some (JObj kvs)) = kvs"
| "spread (Some (JStr s)) = zip (map string_of_nat [0..<length s]) (map (\<lambda>c. JStr [c]) s)"
| "spread (Some (JArr xs)) = zip (map string_of_nat [0..<length xs]) xs"
| "spread v = []"

text \<open>\<^verbatim>\<open>Array.prototype.join\<close> on strings.\<close>

fun join :: "string \<Rightarrow> string list \<Rightarrow> string" where
  "join sep [] = []"
| "join sep [x] = x"
| "join sep (x # y # ys) = x @ sep @ join sep (y # ys)"

section \<open>Environment, requests and responses\<close>

text \<open>
  \<^verbatim>\<open>process.env\<close> maps a variable name to its value when set. A variable is truthy
  when it is set to a non-empty string.
\<close>

type_synonym env = "string \<Rightarrow> string option"

fun env_truthy :: "string option \<Rightarrow> bool" where
  "env_truthy None = False"
| "env_truthy (Some s) = (s \<noteq> [])"

text \<open>
  A request as the handlers read it. Header names are lower case and each occurs once,
  so \<^verbatim>\<open>headers.get\<close> is \<open>map_of\<close> and \<^verbatim>\<open>headers.set\<close> is \<open>AList.update\<close>.
\<close>

record request =
  req_url :: string
  req_pathname :: string
  req_method :: string
  req_headers :: "(string \<times> string) list"
  req_body :: string

text \<open>
  \<^verbatim>\<open>NextResponse.json(body, { status })\<close>; the status is 200 when not given, and the
  body is what the client reads from the serialized value.
\<close>

record response =
  status :: nat
  body :: json

definition json_response :: "nat \<Rightarrow> json \<Rightarrow> response" where
  "json_response s b = \<lparr>status = s, body = on_the_wire b\<rparr>"

section \<open>The health endpoint\<close>

text \<open>
  \<^verbatim>\<open>GET\<close> of \<^verbatim>\<open>route.ts\<close>. The second argument is what
  \<^verbatim>\<open>new Date().toISOString()\<close> returns at the call.
\<close>

definition GET :: "env \<Rightarrow> string \<Rightarrow> response" where
  "GET env now =
     json_response 200 (obj
       [(''status'', Some (JStr ''ok'')),
        (''service'', Some (JStr ''trackfast-api'')),
        (''version'', Some (JStr ''0.1.0'')),
        (''providers'', Some (obj
           [(''posthog'', Some (JBool (env_truthy (env ''NEXT_PUBLIC_POSTHOG_KEY'')))),
            (''ga4'', Some (JBool (env_truthy (env ''NEXT_PUBLIC_GA4_ID'')
                                   \<and> env_truthy (env ''GA4_API_SECRET''))))])),
        (''timestamp'', Some (JStr now))])"

text \<open>The three credentials the providers need.\<close>

definition credential_names :: "string list" where
  "credential_names = [''NEXT_PUBLIC_POSTHOG_KEY'', ''NEXT_PUBLIC_GA4_ID'', ''GA4_API_SECRET'']"

section \<open>The tracking endpoint: outbound payloads\<close>

text \<open>
  The property bag sent to every provider (\<^verbatim>\<open>enhancedPayload.properties\<close>): the
  caller's properties spread first, then four metadata keys. A key that the caller already
  used keeps its place and takes the new value, a new key goes to the end.
\<close>

definition enhancedProperties :: "json option \<Rightarrow> bool \<Rightarrow> string \<Rightarrow> (string \<times> json) list" where
  "enhancedProperties properties isValidated now =
     AList.update ''timestamp'' (JStr now)
       (AList.update ''$validated'' (JBool isValidated)
         (AList.update ''$lib_version'' (JStr ''0.1.0'')
           (AList.update ''$lib'' (JStr ''trackfast-server'') (spread properties))))"

definition metadata_keys :: "string list" where
  "metadata_keys = [''$lib'', ''$lib_version'', ''$validated'', ''timestamp'']"

datatype provider = PostHog | GA4

text \<open>
  An outbound \<^verbatim>\<open>fetch\<close> call: every one is a POST with a JSON content type, so
  the URL and the body vary. The body is what the provider reads from the text that
  \<^verbatim>\<open>JSON.stringify\<close> writes.
\<close>

record fetch_request =
  fetch_url :: string
  fetch_body :: json

text \<open>A variable inside a template literal: \<^verbatim>\<open>undefined\<close> prints as its name.\<close>

fun template :: "string option \<Rightarrow> string" where
  "template None = ''undefined''"
| "template (Some s) = s"

definition posthog_request :: "env \<Rightarrow> string \<Rightarrow> (string \<times> json) list \<Rightarrow> string \<Rightarrow> fetch_request" where
  "posthog_request env event enhanced now =
     \<lparr>fetch_url = ''https://us.i.posthog.com/capture/'',
      fetch_body = on_the_wire (obj
        [(''api_key'', map_option JStr (env ''NEXT_PUBLIC_POSTHOG_KEY'')),
         (''event'', Some (JStr event)),
         (''properties'', Some (JObj enhanced)),
         (''timestamp'', Some (JStr now))])\<rparr>"

text \<open>
  The character class \<^verbatim>\<open>[a-zA-Z0-9_]\<close>, by code unit, and
  \<^verbatim>\<open>event.replace(/[^a-zA-Z0-9_]/g, '_')\<close>.
\<close>

definition ga4_allowed :: "char \<Rightarrow> bool" where
  "ga4_allowed c =
     (let n = (of_char c :: nat)
      in (97 \<le> n \<and> n \<le> 122) \<or> (65 \<le> n \<and> n \<le> 90) \<or> (48 \<le> n \<and> n \<le> 57) \<or> n = 95)"

definition ga4_sanitize :: "string \<Rightarrow> string" where
  "ga4_sanitize event = map (\<lambda>c. if ga4_allowed c then c else CHR ''_'') event"

text \<open>\<^verbatim>\<open>properties?.userId || 'anonymous'\<close>.\<close>

definition client_id :: "json option \<Rightarrow> json" where
  "client_id properties =
     (let userId = (case properties of
                      None \<Rightarrow> None
                    | Some JNull \<Rightarrow> None
                    | Some v \<Rightarrow> get_prop v ''userId'')
      in if truthy_opt userId then the userId else JStr ''anonymous'')"

definition ga4_request :: "env \<Rightarrow> string \<Rightarrow> json option \<Rightarrow> (string \<times> json) list \<Rightarrow> fetch_request" where
  "ga4_request env event properties enhanced =
     \<lparr>fetch_url = ''https://www.google-analytics.com/mp/collect?measurement_id=''
                   @ template (env ''NEXT_PUBLIC_GA4_ID'')
                   @ ''&api_secret='' @ template (env ''GA4_API_SECRET''),
      fetch_body = on_the_wire (obj
        [(''client_id'', Some (client_id properties)),
         (''events'', Some (JArr
            [obj [(''name'', Some (JStr (ga4_sanitize event))),
                  (''parameters'', Some (JObj enhanced))]]))])\<rparr>"

text \<open>Reading the event names back from a measurement-protocol body.\<close>

definition ga4_event_names :: "json \<Rightarrow> json option list" where
  "ga4_event_names b =
     (case get_prop b ''events'' of
        Some (JArr es) \<Rightarrow> map (\<lambda>e. get_prop e ''name'') es
      | _ \<Rightarrow> [])"

section \<open>The tracking endpoint: fan-out\<close>

text \<open>
  The network is a parameter: what a \<^verbatim>\<open>fetch\<close> of a request settles to, a response
  with its \<^verbatim>\<open>ok\<close> flag or a rejection with the error's text. A promise is
  modelled by what it settles to; the code sets no timeout, and a fetch that never settles
  is outside the model.
\<close>

datatype fetch_outcome = Response bool | NetworkError string

type_synonym network = "fetch_request \<Rightarrow> fetch_outcome"

datatype 'a settled = Fulfilled 'a | Rejected string

text \<open>
  What a tracking promise fulfils with: the response (its \<^verbatim>\<open>ok\<close> flag), or the
  object \<^verbatim>\<open>{ ok: false, provider, error }\<close> that the \<^verbatim>\<open>catch\<close> handler returns.
\<close>

datatype tracked = Resp bool | Caught provider string

fun tracked_ok :: "tracked \<Rightarrow> bool" where
  "tracked_ok (Resp ok) = ok"
| "tracked_ok (Caught p e) = False"

definition fetch :: "network \<Rightarrow> fetch_request \<Rightarrow> tracked settled" where
  "fetch net r = (case net r of Response ok \<Rightarrow> Fulfilled (Resp ok) | NetworkError e \<Rightarrow> Rejected e)"

fun promise_catch :: "(string \<Rightarrow> 'a) \<Rightarrow> 'a settled \<Rightarrow> 'a settled" where
  "promise_catch h (Fulfilled v) = Fulfilled v"
| "promise_catch h (Rejected e) = Fulfilled (h e)"

text \<open>
  \<^verbatim>\<open>trackingPromises\<close> after the two conditional pushes. The instants are those of
  the \<^verbatim>\<open>new Date()\<close> calls of one request.
\<close>

record clock =
  t_enhanced :: string
  t_capture :: string
  t_response :: string

definition trackingPromises ::
  "env \<Rightarrow> network \<Rightarrow> clock \<Rightarrow> string \<Rightarrow> json option \<Rightarrow> (string \<times> json) list \<Rightarrow> tracked settled list" where
  "trackingPromises env net clk event properties enhanced =
     (if env_truthy (env ''NEXT_PUBLIC_POSTHOG_KEY'')
      then [promise_catch (\<lambda>e. Caught PostHog e)
              (fetch net (posthog_request env event enhanced (t_capture clk)))]
      else [])
     @ (if env_truthy (env ''NEXT_PUBLIC_GA4_ID'') \<and> env_truthy (env ''GA4_API_SECRET'')
        then [promise_catch (\<lambda>e. Caught GA4 e)
                (fetch net (ga4_request env event properties enhanced))]
        else [])"

text \<open>
  \<^verbatim>\<open>Promise.allSettled\<close>: one result per promise, in the order of the array,
  whatever the order of completion.
\<close>

definition allSettled :: "'a settled list \<Rightarrow> 'a settled list" where
  "allSettled ps = ps"

definition successes :: "tracked settled list \<Rightarrow> nat" where
  "successes results =
     length (filter (\<lambda>r. case r of Fulfilled v \<Rightarrow> tracked_ok v | Rejected e \<Rightarrow> False) results)"

definition failures :: "tracked settled list \<Rightarrow> tracked settled list" where
  "failures results =
     filter (\<lambda>r. case r of Rejected e \<Rightarrow> True | Fulfilled v \<Rightarrow> \<not> tracked_ok v) results"

text \<open>
  A provider is enabled when its credentials are set, as the health endpoint reports it;
  the providers are invoked in this order.
\<close>

fun provider_enabled :: "env \<Rightarrow> provider \<Rightarrow> bool" where
  "provider_enabled env PostHog = env_truthy (env ''NEXT_PUBLIC_POSTHOG_KEY'')"
| "provider_enabled env GA4 =
     (env_truthy (env ''NEXT_PUBLIC_GA4_ID'') \<and> env_truthy (env ''GA4_API_SECRET''))"

definition enabled_providers :: "env \<Rightarrow> provider list" where
  "enabled_providers env = filter (provider_enabled env) [PostHog, GA4]"

text \<open>The request built for a provider, and the promise of its attempt.\<close>

definition provider_request ::
  "env \<Rightarrow> clock \<Rightarrow> string \<Rightarrow> json option \<Rightarrow> bool \<Rightarrow> provider \<Rightarrow> fetch_request" where
  "provider_request env clk event properties validated p =
     (let enhanced = enhancedProperties properties validated (t_enhanced clk)
      in case p of
           PostHog \<Rightarrow> posthog_request env event enhanced (t_capture clk)
         | GA4 \<Rightarrow> ga4_request env event properties enhanced)"

definition attempt :: "network \<Rightarrow> provider \<Rightarrow> fetch_request \<Rightarrow> tracked settled" where
  "attempt net p r = promise_catch (\<lambda>e. Caught p e) (fetch net r)"

text \<open>The three figures of the report and the list of failed results behind the third.\<close>

record dispatch_report =
  attempted :: nat
  succeeded :: nat
  failed :: "tracked settled list"

definition dispatch ::
  "env \<Rightarrow> network \<Rightarrow> clock \<Rightarrow> string \<Rightarrow> json option \<Rightarrow> bool \<Rightarrow> dispatch_report" where
  "dispatch env net clk event properties isValidated =
     (let enhanced = enhancedProperties properties isValidated (t_enhanced clk);
          promises = trackingPromises env net clk event properties enhanced;
          results = allSettled promises
      in \<lparr>attempted = length promises,
          succeeded = successes results,
          failed = failures results\<rparr>)"

text \<open>The success response of \<^verbatim>\<open>POST\<close>.\<close>

definition tracked_response :: "string \<Rightarrow> bool \<Rightarrow> dispatch_report \<Rightarrow> string \<Rightarrow> response" where
  "tracked_response event isValidated report now =
     json_response 200 (obj
       [(''success'', Some (JBool True)),
        (''event'', Some (JStr event)),
        (''validated'', Some (JBool isValidated)),
        (''providers'', Some (obj
           [(''attempted'', Some (JNum (Finite (of_nat (attempted report))))),
            (''successful'', Some (JNum (Finite (of_nat (succeeded report))))),
            (''failed'', Some (JNum (Finite (of_nat (length (failed report))))))])),
        (''timestamp'', Some (JStr now))])"

section \<open>The tracking endpoint: the handler\<close>

text \<open>
  An exception inside a \<^verbatim>\<open>try\<close> block, with the text of its \<^verbatim>\<open>message\<close>.
  \<^verbatim>\<open>JSON.parse\<close> belongs to the platform and is a parameter: it returns the value, or
  the message of the \<^verbatim>\<open>SyntaxError\<close> it throws.
\<close>

datatype fault = SyntaxError string | TypeError string | ReferenceError string

fun message :: "fault \<Rightarrow> string" where
  "message (SyntaxError m) = m"
| "message (TypeError m) = m"
| "message (ReferenceError m) = m"

type_synonym json_parser = "string \<Rightarrow> string + json"

definition isValidated :: "request \<Rightarrow> bool" where
  "isValidated request = (map_of (req_headers request) ''x-trackfast-validated'' = Some ''true'')"

text \<open>
  The \<^verbatim>\<open>try\<close> block of \<^verbatim>\<open>POST\<close>. Destructuring \<^verbatim>\<open>null\<close> throws a
  \<^verbatim>\<open>TypeError\<close>; any other JSON value has the two properties or gives
  \<^verbatim>\<open>undefined\<close> for them.
\<close>

definition POST_try :: "json_parser \<Rightarrow> env \<Rightarrow> network \<Rightarrow> clock \<Rightarrow> request \<Rightarrow> fault + response" where
  "POST_try JSON_parse env net clk request =
     (case JSON_parse (req_body request) of
        Inl m \<Rightarrow> Inl (SyntaxError m)
      | Inr payload \<Rightarrow>
          if payload = JNull
          then Inl (TypeError ''Cannot destructure property event of payload as it is null.'')
          else
            (let event = get_prop payload ''event'';
                 properties = get_prop payload ''properties''
             in case event of
                  Some (JStr e) \<Rightarrow>
                    if \<not> truthy (JStr e)
                    then Inr (json_response 400 (obj [(''error'', Some (JStr ''Event name is required''))]))
                    else Inr (tracked_response e (isValidated request)
                                (dispatch env net clk e properties (isValidated request))
                                (t_response clk))
                | _ \<Rightarrow> Inr (json_response 400 (obj [(''error'', Some (JStr ''Event name is required''))]))))"

definition POST :: "json_parser \<Rightarrow> env \<Rightarrow> network \<Rightarrow> clock \<Rightarrow> request \<Rightarrow> response" where
  "POST JSON_parse env net clk request =
     (case POST_try JSON_parse env net clk request of
        Inr r \<Rightarrow> r
      | Inl error \<Rightarrow>
          json_response 500 (obj
            [(''error'', Some (JStr ''Internal server error'')),
             (''details'', if env ''NODE_ENV'' = Some ''development''
                           then Some (JStr (message error)) else None)]))"

section \<open>The edge middleware\<close>

text \<open>
  The generated module \<^verbatim>\<open>src/lib/event-schemas\<close> is a parameter: the table
  \<^verbatim>\<open>eventSchemas\<close> as the list of its own keys with their schemas, and
  \<^verbatim>\<open>validateEvent\<close>, which returns or throws a value whose \<^verbatim>\<open>message\<close> may be
  missing.
\<close>

datatype validation_outcome = Returns | Throws "string option"

record 's schema_module =
  eventSchemas :: "(string \<times> 's) list"
  validateEvent :: "string \<Rightarrow> json \<Rightarrow> validation_outcome"

text \<open>
  The \<^verbatim>\<open>in\<close> operator on an object literal: true for an own key and for every
  property inherited from \<^verbatim>\<open>Object.prototype\<close>.
\<close>

definition Object_prototype_keys :: "string list" where
  "Object_prototype_keys =
     [''constructor'', ''__defineGetter__'', ''__defineSetter__'', ''hasOwnProperty'',
      ''__lookupGetter__'', ''__lookupSetter__'', ''isPrototypeOf'', ''propertyIsEnumerable'',
      ''toString'', ''valueOf'', ''__proto__'', ''toLocaleString'']"

definition js_in :: "string \<Rightarrow> (string \<times> 's) list \<Rightarrow> bool" where
  "js_in k table = (k \<in> set (map fst table) \<or> k \<in> set Object_prototype_keys)"

text \<open>
  \<^verbatim>\<open>Object.keys\<close>: the own keys, in insertion order (event names are not
  integer-like, so no key is moved to the front).
\<close>

definition Object_keys :: "(string \<times> 's) list \<Rightarrow> string list" where
  "Object_keys table = map fst table"

text \<open>
  The middleware answers itself (\<^verbatim>\<open>NextResponse.json\<close>) or hands a request on
  (\<^verbatim>\<open>NextResponse.next\<close>).
\<close>

datatype gate_result = Respond response | Next_request request

definition invalid_event_response :: response where
  "invalid_event_response =
     json_response 400 (obj
       [(''error'', Some (JStr ''Missing or invalid event name'')),
        (''details'', Some (JStr ''Event must be a non-empty string''))])"

definition unknown_event_response :: "string \<Rightarrow> string list \<Rightarrow> response" where
  "unknown_event_response event names =
     json_response 400 (obj
       [(''error'', Some (JStr (''Unknown event: '' @ event))),
        (''details'', Some (JStr (''Available events: '' @ join '', '' names))),
        (''availableEvents'', Some (JArr (map JStr names)))])"

definition validation_failed_response :: "string option \<Rightarrow> string \<Rightarrow> json option \<Rightarrow> response" where
  "validation_failed_response msg event properties =
     json_response 400 (obj
       [(''error'', Some (JStr ''Event validation failed'')),
        (''details'', map_option JStr msg),
        (''event'', Some (JStr event)),
        (''properties'', properties)])"

text \<open>
  The headers prepared for the request to hand on: the three marker headers set on a copy
  of the incoming ones.
\<close>

definition requestHeaders :: "request \<Rightarrow> string \<Rightarrow> string \<Rightarrow> (string \<times> string) list" where
  "requestHeaders request event now =
     AList.update ''x-trackfast-timestamp'' now
       (AList.update ''x-trackfast-event'' event
         (AList.update ''x-trackfast-validated'' ''true'' (req_headers request)))"

text \<open>
  \<^verbatim>\<open>new NextRequest(url, { method, headers, body })\<close> in the middleware. The module
  imports \<^verbatim>\<open>NextRequest\<close> with \<^verbatim>\<open>import type\<close>, which is erased when the file is
  compiled: at run time the name is not bound and the expression throws a
  \<^verbatim>\<open>ReferenceError\<close>, whatever the arguments.
\<close>

definition new_NextRequest ::
  "string \<Rightarrow> string \<Rightarrow> (string \<times> string) list \<Rightarrow> string \<Rightarrow> fault + request" where
  "new_NextRequest url method_name headers body_text =
     Inl (ReferenceError ''NextRequest is not defined'')"

text \<open>\<^verbatim>\<open>payload.properties || {}\<close>.\<close>

definition properties_or_empty :: "json option \<Rightarrow> json" where
  "properties_or_empty properties = (if truthy_opt properties then the properties else JObj [])"

text \<open>The \<^verbatim>\<open>try\<close> block of \<^verbatim>\<open>validateTrackingRequest\<close>.\<close>

definition validateTrackingRequest_try ::
  "json_parser \<Rightarrow> 's schema_module \<Rightarrow> string \<Rightarrow> request \<Rightarrow> fault + gate_result" where
  "validateTrackingRequest_try JSON_parse schemas now request =
     (case JSON_parse (req_body request) of
        Inl m \<Rightarrow>
          Inr (Respond (json_response 400 (obj
            [(''error'', Some (JStr ''Invalid JSON payload'')),
             (''details'', Some (JStr ''Request body must be valid JSON''))])))
      | Inr payload \<Rightarrow>
          if payload = JNull
          then Inl (TypeError ''Cannot read properties of null (reading event)'')
          else
            (case get_prop payload ''event'' of
               Some (JStr e) \<Rightarrow>
                 if \<not> truthy (JStr e) then Inr (Respond invalid_event_response)
                 else if \<not> js_in e (eventSchemas schemas)
                 then Inr (Respond (unknown_event_response e (Object_keys (eventSchemas schemas))))
                 else
                   (case validateEvent schemas e (properties_or_empty (get_prop payload ''properties'')) of
                      Throws msg \<Rightarrow>
                        Inr (Respond (validation_failed_response msg e (get_prop payload ''properties'')))
                    | Returns \<Rightarrow>
                        (case new_NextRequest (req_url request) (req_method request)
                                (requestHeaders request e now) (req_body request) of
                           Inl error \<Rightarrow> Inl error
                         | Inr validatedRequest \<Rightarrow> Inr (Next_request validatedRequest)))
             | _ \<Rightarrow> Inr (Respond invalid_event_response)))"

definition validateTrackingRequest ::
  "json_parser \<Rightarrow> 's schema_module \<Rightarrow> string \<Rightarrow> request \<Rightarrow> gate_result" where
  "validateTrackingRequest JSON_parse schemas now request =
     (case validateTrackingRequest_try JSON_parse schemas now request of
        Inr r \<Rightarrow> r
      | Inl error \<Rightarrow>
          Respond (json_response 500 (obj
            [(''error'', Some (JStr ''Internal validation error'')),
             (''details'', Some (JStr ''Event validation system error''))])))"

definition middleware ::
  "json_parser \<Rightarrow> 's schema_module \<Rightarrow> string \<Rightarrow> request \<Rightarrow> gate_result" where
  "middleware JSON_parse schemas now request =
     (if req_pathname request = ''/api/track''
      then validateTrackingRequest JSON_parse schemas now request
      else Next_request request)"

section \<open>Reading a sent payload, and example inputs\<close>

text \<open>
  The property bag inside a provider's body: \<^verbatim>\<open>properties\<close> of the capture
  call, \<^verbatim>\<open>parameters\<close> of the single measurement-protocol event.
\<close>

definition sent_properties :: "provider \<Rightarrow> json \<Rightarrow> json option" where
  "sent_properties p b =
     (case p of
        PostHog \<Rightarrow> get_prop b ''properties''
      | GA4 \<Rightarrow> (case get_prop b ''events'' of
                  Some (JArr [e]) \<Rightarrow> get_prop e ''parameters''
                | _ \<Rightarrow> None))"

definition sent_property :: "provider \<Rightarrow> json \<Rightarrow> string \<Rightarrow> json option" where
  "sent_property p b k =
     (case sent_properties p b of
        Some ps \<Rightarrow> get_prop ps k
      | None \<Rightarrow> None)"

text \<open>
  Inputs for the concrete instances below: a parser that knows four body texts, a schema
  module with the two events of the documentation whose validator wants an
  \<^verbatim>\<open>email\<close> for a sign-up, instants, and requests.
\<close>

definition example_parser :: json_parser where
  "example_parser text =
     (if text = ''{\"event\":\"user_signed_up\",\"properties\":{\"email\":\"test@example.com\",\"plan\":\"starter\"}}''
      then Inr (JObj [(''event'', JStr ''user_signed_up''),
                      (''properties'', JObj [(''email'', JStr ''test@example.com''),
                                             (''plan'', JStr ''starter'')])])
      else if text = ''{\"event\":\"unknown_event\",\"properties\":{}}''
      then Inr (JObj [(''event'', JStr ''unknown_event''), (''properties'', JObj [])])
      else if text = ''{\"event\":\"toString\",\"properties\":{}}''
      then Inr (JObj [(''event'', JStr ''toString''), (''properties'', JObj [])])
      else if text = ''null'' then Inr JNull
      else Inl ''Unexpected token'')"

definition example_schemas :: "unit schema_module" where
  "example_schemas =
     \<lparr>eventSchemas = [(''user_signed_up'', ()), (''pageview'', ())],
      validateEvent = (\<lambda>event properties.
        if event = ''user_signed_up'' \<and> get_prop properties ''email'' = None
        then Throws (Some ''email: Required'') else Returns)\<rparr>"

definition example_clock :: clock where
  "example_clock =
     \<lparr>t_enhanced = ''2024-01-01T00:00:00.000Z'',
      t_capture = ''2024-01-01T00:00:00.001Z'',
      t_response = ''2024-01-01T00:00:00.250Z''\<rparr>"

definition example_env :: env where
  "example_env =
     [''NEXT_PUBLIC_POSTHOG_KEY'' \<mapsto> ''phc_key'',
      ''NEXT_PUBLIC_GA4_ID'' \<mapsto> ''G-1'',
      ''GA4_API_SECRET'' \<mapsto> ''secret'',
      ''NODE_ENV'' \<mapsto> ''production'']"

definition example_request :: "string \<Rightarrow> request" where
  "example_request text =
     \<lparr>req_url = ''https://example.com/api/track'',
      req_pathname = ''/api/track'',
      req_method = ''POST'',
      req_headers = [(''content-type'', ''application/json'')],
      req_body = text\<rparr>"

definition signup_text :: string where
  "signup_text = ''{\"event\":\"user_signed_up\",\"properties\":{\"email\":\"test@example.com\",\"plan\":\"starter\"}}''"

definition unknown_text :: string where
  "unknown_text = ''{\"event\":\"unknown_event\",\"properties\":{}}''"

definition toString_text :: string where
  "toString_text = ''{\"event\":\"toString\",\"properties\":{}}''"

text \<open>
  A network on which the capture API answers ok and every other request fails, and a
  request that a client sends with the marker header already on it.
\<close>

definition capture_only :: network where
  "capture_only r =
     (if fetch_url r = ''https://us.i.posthog.com/capture/'' then Response True
      else NetworkError ''fetch failed'')"


definition forged_request :: request where
  "forged_request =
     \<lparr>req_url = ''https://example.com/api/track'',
      req_pathname = ''/api/track'',
      req_method = ''POST'',
      req_headers = [(''content-type'', ''application/json''), (''x-trackfast-validated'', ''true'')],
      req_body = unknown_text\<rparr>"

section \<open>Properties of the health endpoint\<close>

text \<open>
  Claim C10. The health response depends only on which credentials are present, not on
  their values: two environments that set the same credentials (to any non-empty values)
  give the same response at the same instant, so no credential value can be read off it.
\<close>

theorem GET_depends_on_presence_only:
  assumes "\<forall>k \<in> set credential_names. env_truthy (env1 k) = env_truthy (env2 k)"
  shows "GET env1 now = GET env2 now"
  using assms by (simp add: GET_def credential_names_def)

theorem GET_depends_on_presence_only_witness:
  "GET [''NEXT_PUBLIC_POSTHOG_KEY'' \<mapsto> ''phc_first''] ''2024-01-01T00:00:00.000Z''
   = GET [''NEXT_PUBLIC_POSTHOG_KEY'' \<mapsto> ''phc_second''] ''2024-01-01T00:00:00.000Z''"
proof -
  have "\<forall>k \<in> set credential_names.
      env_truthy ([''NEXT_PUBLIC_POSTHOG_KEY'' \<mapsto> ''phc_first''] k)
      = env_truthy ([''NEXT_PUBLIC_POSTHOG_KEY'' \<mapsto> ''phc_second''] k)"
    by (simp add: credential_names_def)
  then show ?thesis
    by (rule GET_depends_on_presence_only)
qed

section \<open>Properties of the fan-out\<close>

text \<open>
  The two filters of \<^verbatim>\<open>POST\<close> split the results: a result is a failure exactly when
  it is not a success.
\<close>

lemma failure_is_not_success:
  "(case r of Rejected e \<Rightarrow> True | Fulfilled v \<Rightarrow> \<not> tracked_ok v)
   = (\<not> (case r of Fulfilled v \<Rightarrow> tracked_ok v | Rejected e \<Rightarrow> False))"
  by (cases r) simp_all

lemma successes_plus_failures:
  "successes results + length (failures results) = length results"
  unfolding successes_def failures_def failure_is_not_success
  by (rule sum_length_filter_compl)

lemma trackingPromises_in_order:
  "trackingPromises env net clk event properties (enhancedProperties properties v (t_enhanced clk))
   = map (\<lambda>p. attempt net p (provider_request env clk event properties v p)) (enabled_providers env)"
  by (simp add: trackingPromises_def enabled_providers_def attempt_def provider_request_def)

lemma attempt_failed_iff:
  "(case attempt net p r of Rejected e \<Rightarrow> True | Fulfilled v \<Rightarrow> \<not> tracked_ok v)
   = (net r \<noteq> Response True)"
  by (cases "net r") (simp_all add: attempt_def fetch_def)

lemma failed_in_order:
  "failed (dispatch env net clk event properties v)
   = map (\<lambda>p. attempt net p (provider_request env clk event properties v p))
       (filter (\<lambda>p. net (provider_request env clk event properties v p) \<noteq> Response True)
          (enabled_providers env))"
  by (simp add: dispatch_def Let_def allSettled_def failures_def trackingPromises_in_order
      filter_map comp_def attempt_failed_iff)

text \<open>
  Claim C1. The report of a dispatch: \<open>attempted\<close> is the number of enabled providers
  (a provider without its credentials is skipped and not counted); \<open>succeeded\<close> plus
  the number of failed entries is \<open>attempted\<close>; the results are those of the enabled
  providers in invocation order and the failed entries are a subsequence of them; with no
  enabled provider the report is all zero and empty.
\<close>

theorem dispatch_report_guarantee:
  "attempted (dispatch env net clk event properties v) = length (enabled_providers env)
   \<and> succeeded (dispatch env net clk event properties v)
       + length (failed (dispatch env net clk event properties v))
     = attempted (dispatch env net clk event properties v)
   \<and> allSettled (trackingPromises env net clk event properties
        (enhancedProperties properties v (t_enhanced clk)))
     = map (\<lambda>p. attempt net p (provider_request env clk event properties v p))
         (enabled_providers env)
   \<and> subseq (failed (dispatch env net clk event properties v))
       (allSettled (trackingPromises env net clk event properties
          (enhancedProperties properties v (t_enhanced clk))))
   \<and> (enabled_providers env = [] \<longrightarrow>
        dispatch env net clk event properties v = \<lparr>attempted = 0, succeeded = 0, failed = []\<rparr>)"
proof (intro conjI impI)
  show "attempted (dispatch env net clk event properties v) = length (enabled_providers env)"
    by (simp add: dispatch_def Let_def trackingPromises_in_order)
  show "succeeded (dispatch env net clk event properties v)
       + length (failed (dispatch env net clk event properties v))
     = attempted (dispatch env net clk event properties v)"
    by (simp add: dispatch_def Let_def allSettled_def successes_plus_failures)
  show "allSettled (trackingPromises env net clk event properties
        (enhancedProperties properties v (t_enhanced clk)))
     = map (\<lambda>p. attempt net p (provider_request env clk event properties v p))
         (enabled_providers env)"
    by (simp add: allSettled_def trackingPromises_in_order)
  show "subseq (failed (dispatch env net clk event properties v))
       (allSettled (trackingPromises env net clk event properties
          (enhancedProperties properties v (t_enhanced clk))))"
    by (simp add: dispatch_def Let_def failures_def)
next
  assume "enabled_providers env = []"
  then show "dispatch env net clk event properties v = \<lparr>attempted = 0, succeeded = 0, failed = []\<rparr>"
    by (simp add: dispatch_def Let_def allSettled_def trackingPromises_in_order
        successes_def failures_def)
qed

theorem dispatch_report_guarantee_witness:
  "dispatch Map.empty (\<lambda>r. Response True)
     \<lparr>t_enhanced = ''2024-01-01T00:00:00.000Z'', t_capture = ''2024-01-01T00:00:00.001Z'',
      t_response = ''2024-01-01T00:00:00.002Z''\<rparr>
     ''pageview'' None False
   = \<lparr>attempted = 0, succeeded = 0, failed = []\<rparr>"
proof -
  have "enabled_providers Map.empty = []"
    by (simp add: enabled_providers_def)
  then show ?thesis
    using dispatch_report_guarantee [of Map.empty] by blast
qed

section \<open>Properties of serialization\<close>

lemma get_prop_on_the_wire:
  "get_prop (on_the_wire (JObj kvs)) k = map_option on_the_wire (map_of kvs k)"
  by (induction kvs) auto

lemma plain_on_the_wire: "plain v \<Longrightarrow> on_the_wire v = v"
proof (induction v)
  case (JNum n)
  then show ?case by (cases n) simp_all
next
  case (JArr xs)
  then show ?case by (simp add: list_all_iff map_idI)
next
  case (JObj kvs)
  have "map_prod id on_the_wire kv = kv" if "kv \<in> set kvs" for kv
  proof -
    obtain k v where kv: "kv = (k, v)" by (cases kv)
    with that JObj.prems have "plain v"
      by (force simp add: list_all_iff)
    moreover from kv that have "v \<in> Basic_BNFs.snds kv" by simp
    ultimately have "on_the_wire v = v"
      using JObj.IH that by blast
    with kv show ?thesis by simp
  qed
  then show ?case by (simp add: map_idI)
qed simp_all

lemma obj_fields_other_key:
  "k \<noteq> k' \<Longrightarrow> map_of (obj_fields ((k, x) # kvs)) k' = map_of (obj_fields kvs) k'"
  by (cases x) simp_all

section \<open>Properties of the tracking handler\<close>

lemma POST_try_dispatches:
  assumes "JSON_parse (req_body request) = Inr payload"
    and "get_prop payload ''event'' = Some (JStr e)" and "e \<noteq> []"
  shows "POST_try JSON_parse env net clk request
         = Inr (tracked_response e (isValidated request)
             (dispatch env net clk e (get_prop payload ''properties'') (isValidated request))
             (t_response clk))"
proof -
  from assms(2) have "payload \<noteq> JNull" by auto
  with assms show ?thesis by (simp add: POST_try_def)
qed

lemma attempt_succeeded_iff:
  "(case attempt net p r of Fulfilled v \<Rightarrow> tracked_ok v | Rejected e \<Rightarrow> False)
   = (net r = Response True)"
  using attempt_failed_iff [of net p r] failure_is_not_success [of "attempt net p r"] by simp

lemma succeeded_in_order:
  "succeeded (dispatch env net clk event properties v)
   = length (filter (\<lambda>p. net (provider_request env clk event properties v p) = Response True)
       (enabled_providers env))"
  by (simp add: dispatch_def Let_def allSettled_def successes_def trackingPromises_in_order
      filter_map comp_def attempt_succeeded_iff)

lemma tracked_response_providers:
  "get_prop (body (tracked_response e v report t)) ''providers''
   = Some (JObj [(''attempted'', JNum (Finite (of_nat (attempted report)))),
                 (''successful'', JNum (Finite (of_nat (succeeded report)))),
                 (''failed'', JNum (Finite (of_nat (length (failed report)))))])"
  by (simp add: tracked_response_def json_response_def obj_def)

text \<open>
  Claim C2. A provider failure never leaves the dispatch: for every request with a JSON body
  and a non-empty string event, whatever the network does, \<^verbatim>\<open>POST\<close> answers 200
  with \<open>success: true\<close> and the per-provider counts: \<open>attempted\<close> counts the
  enabled providers, \<open>successful\<close> those whose fetch gave an ok response and
  \<open>failed\<close> the others. The failed entries are exactly the attempts whose fetch did not
  give an ok response, and when every attempt fails the counts are \<open>attempted = n\<close>,
  \<open>successful = 0\<close>, \<open>failed = n\<close>.
\<close>

theorem POST_reports_when_providers_fail:
  assumes "JSON_parse (req_body request) = Inr payload"
    and "get_prop payload ''event'' = Some (JStr e)" and "e \<noteq> []"
  shows "POST JSON_parse env net clk request
         = tracked_response e (isValidated request)
             (dispatch env net clk e (get_prop payload ''properties'') (isValidated request))
             (t_response clk)
       \<and> status (POST JSON_parse env net clk request) = 200
       \<and> get_prop (body (POST JSON_parse env net clk request)) ''success'' = Some (JBool True)
       \<and> get_prop (body (POST JSON_parse env net clk request)) ''providers''
           = Some (JObj
               [(''attempted'', JNum (Finite (of_nat (length (enabled_providers env))))),
                (''successful'', JNum (Finite (of_nat (length
                    (filter (\<lambda>p. net (provider_request env clk e (get_prop payload ''properties'')
                                       (isValidated request) p) = Response True)
                       (enabled_providers env)))))),
                (''failed'', JNum (Finite (of_nat (length
                    (filter (\<lambda>p. net (provider_request env clk e (get_prop payload ''properties'')
                                       (isValidated request) p) \<noteq> Response True)
                       (enabled_providers env))))))])
       \<and> failed (dispatch env net clk e (get_prop payload ''properties'') (isValidated request))
           = map (\<lambda>p. attempt net p
                    (provider_request env clk e (get_prop payload ''properties'') (isValidated request) p))
               (filter (\<lambda>p. net (provider_request env clk e (get_prop payload ''properties'')
                                  (isValidated request) p) \<noteq> Response True)
                  (enabled_providers env))
       \<and> ((\<forall>r. net r \<noteq> Response True) \<longrightarrow>
            get_prop (body (POST JSON_parse env net clk request)) ''providers''
            = Some (JObj [(''attempted'', JNum (Finite (of_nat (length (enabled_providers env))))),
                          (''successful'', JNum (Finite 0)),
                          (''failed'', JNum (Finite (of_nat (length (enabled_providers env)))))]))"
proof -
  let ?props = "get_prop payload ''properties''"
  let ?report = "dispatch env net clk e ?props (isValidated request)"
  have post: "POST JSON_parse env net clk request
              = tracked_response e (isValidated request) ?report (t_response clk)"
    by (simp add: POST_def
        POST_try_dispatches [where JSON_parse = JSON_parse and request = request, OF assms])
  have a: "attempted ?report = length (enabled_providers env)"
    by (simp add: dispatch_def Let_def trackingPromises_in_order)
  have f: "failed ?report
           = map (\<lambda>p. attempt net p (provider_request env clk e ?props (isValidated request) p))
               (filter (\<lambda>p. net (provider_request env clk e ?props (isValidated request) p)
                           \<noteq> Response True)
                  (enabled_providers env))"
    by (rule failed_in_order)
  have counts: "get_prop (body (POST JSON_parse env net clk request)) ''providers''
           = Some (JObj
               [(''attempted'', JNum (Finite (of_nat (length (enabled_providers env))))),
                (''successful'', JNum (Finite (of_nat (length
                    (filter (\<lambda>p. net (provider_request env clk e ?props (isValidated request) p)
                                = Response True)
                       (enabled_providers env)))))),
                (''failed'', JNum (Finite (of_nat (length
                    (filter (\<lambda>p. net (provider_request env clk e ?props (isValidated request) p)
                                \<noteq> Response True)
                       (enabled_providers env))))))])"
    unfolding post tracked_response_providers a succeeded_in_order f by simp
  have all_fail: "get_prop (body (POST JSON_parse env net clk request)) ''providers''
            = Some (JObj [(''attempted'', JNum (Finite (of_nat (length (enabled_providers env))))),
                          (''successful'', JNum (Finite 0)),
                          (''failed'', JNum (Finite (of_nat (length (enabled_providers env)))))])"
    if h: "\<forall>r. net r \<noteq> Response True"
    unfolding counts using h by simp
  have basics: "status (POST JSON_parse env net clk request) = 200
       \<and> get_prop (body (POST JSON_parse env net clk request)) ''success'' = Some (JBool True)"
    unfolding post by (simp add: tracked_response_def json_response_def obj_def)
  from post basics counts f all_fail show ?thesis
    by blast
qed

theorem POST_reports_when_providers_fail_witness:
  "status (POST example_parser example_env (\<lambda>r. NetworkError ''fetch failed'') example_clock
     (example_request signup_text)) = 200
   \<and> get_prop (body (POST example_parser example_env (\<lambda>r. NetworkError ''fetch failed'')
          example_clock (example_request signup_text))) ''success'' = Some (JBool True)
   \<and> get_prop (body (POST example_parser example_env (\<lambda>r. NetworkError ''fetch failed'')
          example_clock (example_request signup_text))) ''providers''
     = Some (JObj [(''attempted'', JNum (Finite 2)), (''successful'', JNum (Finite 0)),
                   (''failed'', JNum (Finite 2))])
   \<and> get_prop (body (POST example_parser example_env capture_only
          example_clock (example_request signup_text))) ''providers''
     = Some (JObj [(''attempted'', JNum (Finite 2)), (''successful'', JNum (Finite 1)),
                   (''failed'', JNum (Finite 1))])"
proof -
  have p: "example_parser (req_body (example_request signup_text))
           = Inr (JObj [(''event'', JStr ''user_signed_up''),
                      (''properties'', JObj [(''email'', JStr ''test@example.com''),
                                             (''plan'', JStr ''starter'')])])"
    by (simp add: example_parser_def example_request_def signup_text_def)
  have e: "get_prop (JObj [(''event'', JStr ''user_signed_up''),
                      (''properties'', JObj [(''email'', JStr ''test@example.com''),
                                             (''plan'', JStr ''starter'')])]) ''event''
           = Some (JStr ''user_signed_up'')"
    by simp
  have ne: "''user_signed_up'' \<noteq> []"
    by simp
  have n: "enabled_providers example_env = [PostHog, GA4]"
    by (simp add: enabled_providers_def example_env_def)
  note down = POST_reports_when_providers_fail [where JSON_parse = example_parser
      and request = "example_request signup_text" and env = example_env
      and net = "\<lambda>r. NetworkError ''fetch failed''" and clk = example_clock, OF p e ne]
  note mixed = POST_reports_when_providers_fail [where JSON_parse = example_parser
      and request = "example_request signup_text" and env = example_env
      and net = capture_only and clk = example_clock, OF p e ne]
  have c1: "capture_only (provider_request example_env example_clock ''user_signed_up'' props v PostHog)
            = Response True" for props v
    by (simp add: capture_only_def provider_request_def posthog_request_def)
  have c2: "capture_only (provider_request example_env example_clock ''user_signed_up'' props v GA4)
            \<noteq> Response True" for props v
    by (simp add: capture_only_def provider_request_def ga4_request_def)
  from down [THEN conjunct2, THEN conjunct2, THEN conjunct2, THEN conjunct1]
  have "get_prop (body (POST example_parser example_env (\<lambda>r. NetworkError ''fetch failed'')
          example_clock (example_request signup_text))) ''providers''
     = Some (JObj [(''attempted'', JNum (Finite 2)), (''successful'', JNum (Finite 0)),
                   (''failed'', JNum (Finite 2))])"
    by (simp add: n)
  moreover from mixed [THEN conjunct2, THEN conjunct2, THEN conjunct2, THEN conjunct1]
  have "get_prop (body (POST example_parser example_env capture_only
          example_clock (example_request signup_text))) ''providers''
     = Some (JObj [(''attempted'', JNum (Finite 2)), (''successful'', JNum (Finite 1)),
                   (''failed'', JNum (Finite 1))])"
    by (simp add: n c1 c2)
  ultimately show ?thesis
    using down by blast
qed

section \<open>Properties of the outbound payloads\<close>

lemma ga4_sanitize_allowed: "list_all ga4_allowed (ga4_sanitize event)"
proof (induction event)
  case Nil
  show ?case by (simp add: ga4_sanitize_def)
next
  case (Cons c event)
  have "ga4_allowed CHR ''_''"
    by (simp add: ga4_allowed_def)
  with Cons show ?case
    by (simp add: ga4_sanitize_def)
qed

lemma posthog_body_field:
  "k \<noteq> ''api_key'' \<Longrightarrow>
   get_prop (fetch_body (posthog_request env event enhanced now)) k
   = map_option on_the_wire
       (map_of [(''event'', JStr event), (''properties'', JObj enhanced), (''timestamp'', JStr now)] k)"
  by (cases "env ''NEXT_PUBLIC_POSTHOG_KEY''")
    (simp_all add: posthog_request_def obj_def get_prop_on_the_wire del: on_the_wire.simps)

text \<open>
  Claim C8. The measurement-protocol payload names the event by its sanitized name: the
  same length, every allowed character kept, every other character replaced by an
  underscore, so only letters, digits and underscores are sent; the capture payload keeps
  the event name as it came.
\<close>

theorem ga4_name_sanitized_posthog_name_kept:
  "ga4_event_names (fetch_body (provider_request env clk event properties v GA4))
     = [Some (JStr (ga4_sanitize event))]
   \<and> list_all ga4_allowed (ga4_sanitize event)
   \<and> length (ga4_sanitize event) = length event
   \<and> (\<forall>i < length event.
         ga4_sanitize event ! i = (if ga4_allowed (event ! i) then event ! i else CHR ''_''))
   \<and> get_prop (fetch_body (provider_request env clk event properties v PostHog)) ''event''
     = Some (JStr event)"
proof (intro conjI)
  show "ga4_event_names (fetch_body (provider_request env clk event properties v GA4))
     = [Some (JStr (ga4_sanitize event))]"
    by (simp add: provider_request_def ga4_request_def ga4_event_names_def obj_def)
  show "list_all ga4_allowed (ga4_sanitize event)"
    by (rule ga4_sanitize_allowed)
  show "length (ga4_sanitize event) = length event"
    by (simp add: ga4_sanitize_def)
  show "\<forall>i < length event.
         ga4_sanitize event ! i = (if ga4_allowed (event ! i) then event ! i else CHR ''_'')"
    by (simp add: ga4_sanitize_def)
  show "get_prop (fetch_body (provider_request env clk event properties v PostHog)) ''event''
     = Some (JStr event)"
    by (simp add: provider_request_def posthog_body_field)
qed

theorem ga4_name_sanitized_posthog_name_kept_witness:
  "ga4_event_names (fetch_body (provider_request example_env example_clock ''user-signed.up''
      None False GA4)) = [Some (JStr ''user_signed_up'')]
   \<and> get_prop (fetch_body (provider_request example_env example_clock ''user-signed.up''
      None False PostHog)) ''event'' = Some (JStr ''user-signed.up'')"
proof -
  have "ga4_sanitize ''user-signed.up'' = ''user_signed_up''"
    by (simp add: ga4_sanitize_def ga4_allowed_def)
  with ga4_name_sanitized_posthog_name_kept
    [of example_env example_clock "''user-signed.up''" None False]
  show ?thesis by simp
qed

lemma enhanced_other_keys:
  "k \<notin> set metadata_keys \<Longrightarrow>
   map_of (enhancedProperties properties v t) k = map_of (spread properties) k"
  by (simp add: enhancedProperties_def metadata_keys_def update_conv')

lemma sent_properties_enhanced:
  "sent_properties p (fetch_body (provider_request env clk event properties v p))
   = Some (on_the_wire (JObj (enhancedProperties properties v (t_enhanced clk))))"
proof (cases p)
  case PostHog
  then show ?thesis
    by (simp add: sent_properties_def provider_request_def posthog_body_field
        del: on_the_wire.simps)
next
  case GA4
  then show ?thesis
    by (simp add: sent_properties_def provider_request_def ga4_request_def obj_def)
qed

lemma sent_property_enhanced:
  "sent_property p (fetch_body (provider_request env clk event properties v p)) k
   = map_option on_the_wire (map_of (enhancedProperties properties v (t_enhanced clk)) k)"
  by (simp add: sent_property_def sent_properties_enhanced get_prop_on_the_wire
      del: on_the_wire.simps)

text \<open>
  Claim C4, as stated, fails: a caller's property under one of the four metadata keys is
  replaced on the way out. Here a sign-up carries \<open>$lib = web\<close> beside the declared
  \<open>email\<close> and \<open>plan\<close>, and both providers receive \<open>$lib = trackfast-server\<close>.
\<close>

theorem caller_lib_property_replaced:
  "map_of (spread (Some (JObj [(''email'', JStr ''test@example.com''), (''plan'', JStr ''starter''),
                               (''$lib'', JStr ''web'')]))) ''$lib''
     = Some (JStr ''web'')
   \<and> sent_properties PostHog (fetch_body (provider_request example_env example_clock
        ''user_signed_up''
        (Some (JObj [(''email'', JStr ''test@example.com''), (''plan'', JStr ''starter''),
                     (''$lib'', JStr ''web'')])) True PostHog))
     = Some (JObj [(''email'', JStr ''test@example.com''), (''plan'', JStr ''starter''),
                   (''$lib'', JStr ''trackfast-server''),
                   (''$lib_version'', JStr ''0.1.0''), (''$validated'', JBool True),
                   (''timestamp'', JStr ''2024-01-01T00:00:00.000Z'')])
   \<and> sent_properties GA4 (fetch_body (provider_request example_env example_clock
        ''user_signed_up''
        (Some (JObj [(''email'', JStr ''test@example.com''), (''plan'', JStr ''starter''),
                     (''$lib'', JStr ''web'')])) True GA4))
     = Some (JObj [(''email'', JStr ''test@example.com''), (''plan'', JStr ''starter''),
                   (''$lib'', JStr ''trackfast-server''),
                   (''$lib_version'', JStr ''0.1.0''), (''$validated'', JBool True),
                   (''timestamp'', JStr ''2024-01-01T00:00:00.000Z'')])"
  by (simp add: sent_properties_enhanced enhancedProperties_def example_clock_def)

text \<open>
  Claim C4, amended. Both providers receive the enhanced property bag as
  \<^verbatim>\<open>JSON.stringify\<close> writes it. In it every property of the parsed input whose key is
  not one of the four metadata keys has the input's value as serialized: unchanged when
  the value holds no infinite number and no negative zero (an infinite number is sent as
  \<^verbatim>\<open>null\<close>, negative zero as \<^verbatim>\<open>0\<close>). No key of the input is missing, and the four
  metadata keys hold the server's values.
\<close>

theorem caller_properties_pass_through:
  "sent_properties p (fetch_body (provider_request env clk event (Some (JObj kvs)) v p))
     = Some (on_the_wire (JObj (enhancedProperties (Some (JObj kvs)) v (t_enhanced clk))))
   \<and> (k \<notin> set metadata_keys \<longrightarrow>
        sent_property p (fetch_body (provider_request env clk event (Some (JObj kvs)) v p)) k
        = map_option on_the_wire (map_of kvs k))
   \<and> (k \<notin> set metadata_keys \<and> map_of kvs k = Some x \<and> plain x \<longrightarrow>
        sent_property p (fetch_body (provider_request env clk event (Some (JObj kvs)) v p)) k
        = Some x)
   \<and> dom (map_of kvs)
       \<subseteq> dom (sent_property p (fetch_body (provider_request env clk event (Some (JObj kvs)) v p)))
   \<and> map (sent_property p (fetch_body (provider_request env clk event (Some (JObj kvs)) v p)))
       metadata_keys
     = [Some (JStr ''trackfast-server''), Some (JStr ''0.1.0''), Some (JBool v),
        Some (JStr (t_enhanced clk))]"
proof (intro conjI impI)
  let ?b = "fetch_body (provider_request env clk event (Some (JObj kvs)) v p)"
  show "sent_properties p ?b
     = Some (on_the_wire (JObj (enhancedProperties (Some (JObj kvs)) v (t_enhanced clk))))"
    by (rule sent_properties_enhanced)
  show other: "sent_property p ?b k = map_option on_the_wire (map_of kvs k)"
    if "k \<notin> set metadata_keys"
    using enhanced_other_keys [OF that, of "Some (JObj kvs)" v "t_enhanced clk"]
    by (simp add: sent_property_enhanced)
  show "sent_property p ?b k = Some x"
    if "k \<notin> set metadata_keys \<and> map_of kvs k = Some x \<and> plain x"
    using that other by (simp add: plain_on_the_wire)
  show "dom (map_of kvs) \<subseteq> dom (sent_property p ?b)"
    by (auto simp add: sent_property_enhanced enhancedProperties_def update_conv' dom_def)
  show "map (sent_property p ?b) metadata_keys
     = [Some (JStr ''trackfast-server''), Some (JStr ''0.1.0''), Some (JBool v),
        Some (JStr (t_enhanced clk))]"
    by (simp add: sent_property_enhanced enhancedProperties_def metadata_keys_def update_conv')
qed

theorem caller_properties_pass_through_witness:
  "sent_property GA4 (fetch_body (provider_request example_env example_clock ''pageview''
       (Some (JObj [(''path'', JStr ''/''), (''depth'', JNum (Infinite False))])) True GA4)) ''path''
   = Some (JStr ''/'')
   \<and> sent_property GA4 (fetch_body (provider_request example_env example_clock ''pageview''
       (Some (JObj [(''path'', JStr ''/''), (''depth'', JNum (Infinite False))])) True GA4)) ''depth''
   = Some JNull"
proof -
  have m: "''path'' \<notin> set metadata_keys" "''depth'' \<notin> set metadata_keys"
    by (simp_all add: metadata_keys_def)
  have x: "map_of [(''path'', JStr ''/''), (''depth'', JNum (Infinite False))] ''path''
           = Some (JStr ''/'')"
    "plain (JStr ''/'')"
    by simp_all
  from m(1) x
    caller_properties_pass_through
      [of GA4 example_env example_clock "''pageview''"
          "[(''path'', JStr ''/''), (''depth'', JNum (Infinite False))]" True "''path''"
          "JStr ''/''"]
  have "sent_property GA4 (fetch_body (provider_request example_env example_clock ''pageview''
       (Some (JObj [(''path'', JStr ''/''), (''depth'', JNum (Infinite False))])) True GA4)) ''path''
   = Some (JStr ''/'')"
    by blast
  moreover from m(2)
    caller_properties_pass_through
      [of GA4 example_env example_clock "''pageview''"
          "[(''path'', JStr ''/''), (''depth'', JNum (Infinite False))]" True "''depth''"]
  have "sent_property GA4 (fetch_body (provider_request example_env example_clock ''pageview''
       (Some (JObj [(''path'', JStr ''/''), (''depth'', JNum (Infinite False))])) True GA4)) ''depth''
   = Some JNull"
    by simp
  ultimately show ?thesis by blast
qed

section \<open>Properties of the edge middleware\<close>

lemma gate_never_forwards:
  "validateTrackingRequest JSON_parse schemas now request \<noteq> Next_request q"
  by (auto simp add: validateTrackingRequest_def validateTrackingRequest_try_def
      new_NextRequest_def
      split: sum.splits if_splits option.splits json.splits validation_outcome.splits)

lemma gate_forward_fails:
  assumes "JSON_parse (req_body request) = Inr payload"
    and "get_prop payload ''event'' = Some (JStr e)" and "e \<noteq> []"
    and "js_in e (eventSchemas schemas)"
    and "validateEvent schemas e (properties_or_empty (get_prop payload ''properties'')) = Returns"
  shows "validateTrackingRequest JSON_parse schemas now request
         = Respond (json_response 500 (JObj
             [(''error'', JStr ''Internal validation error''),
              (''details'', JStr ''Event validation system error'')]))"
proof -
  from assms(2) have "payload \<noteq> JNull" by auto
  with assms show ?thesis
    by (simp add: validateTrackingRequest_def validateTrackingRequest_try_def
        new_NextRequest_def obj_def)
qed

lemma unknown_event_enumerated:
  assumes "JSON_parse (req_body request) = Inr payload"
    and "get_prop payload ''event'' = Some (JStr e)" and "e \<noteq> []"
    and "e \<notin> set (Object_keys (eventSchemas schemas))"
    and "e \<notin> set Object_prototype_keys"
  shows "validateTrackingRequest JSON_parse schemas now request
         = Respond (unknown_event_response e (Object_keys (eventSchemas schemas)))"
proof -
  from assms(2) have "payload \<noteq> JNull" by auto
  with assms show ?thesis
    by (simp add: validateTrackingRequest_def validateTrackingRequest_try_def js_in_def
        Object_keys_def)
qed

lemma signup_passes:
  "example_parser (req_body (example_request signup_text))
     = Inr (JObj [(''event'', JStr ''user_signed_up''),
                  (''properties'', JObj [(''email'', JStr ''test@example.com''),
                                         (''plan'', JStr ''starter'')])])
   \<and> js_in ''user_signed_up'' (eventSchemas example_schemas)
   \<and> validateEvent example_schemas ''user_signed_up''
        (properties_or_empty (get_prop (JObj [(''event'', JStr ''user_signed_up''),
                  (''properties'', JObj [(''email'', JStr ''test@example.com''),
                                         (''plan'', JStr ''starter'')])]) ''properties''))
      = Returns"
  by (simp add: example_parser_def example_request_def signup_text_def js_in_def
      example_schemas_def properties_or_empty_def)

text \<open>
  Claim C7 is what the middleware attempts and misses. For a request whose payload passes
  validation (a JSON body, a non-empty string event that the table holds, a validator that
  returns) it prepares the three marker headers on a copy of the incoming ones, but the
  construction of the request to hand on throws, because \<^verbatim>\<open>NextRequest\<close> is imported
  as a type only; the outer \<^verbatim>\<open>catch\<close> answers the fixed 500. No request is ever
  handed on with the marker.
\<close>

theorem passing_request_answered_500:
  assumes "JSON_parse (req_body request) = Inr payload"
    and "get_prop payload ''event'' = Some (JStr e)" and "e \<noteq> []"
    and "js_in e (eventSchemas schemas)"
    and "validateEvent schemas e (properties_or_empty (get_prop payload ''properties'')) = Returns"
  shows "map (map_of (requestHeaders request e now))
           [''x-trackfast-validated'', ''x-trackfast-event'', ''x-trackfast-timestamp'']
         = [Some ''true'', Some e, Some now]
       \<and> new_NextRequest (req_url request) (req_method request) (requestHeaders request e now)
           (req_body request)
         = Inl (ReferenceError ''NextRequest is not defined'')
       \<and> validateTrackingRequest JSON_parse schemas now request
         = Respond (json_response 500 (JObj
             [(''error'', JStr ''Internal validation error''),
              (''details'', JStr ''Event validation system error'')]))
       \<and> (\<forall>q. validateTrackingRequest JSON_parse schemas now request \<noteq> Next_request q)"
proof -
  have "validateTrackingRequest JSON_parse schemas now request
         = Respond (json_response 500 (JObj
             [(''error'', JStr ''Internal validation error''),
              (''details'', JStr ''Event validation system error'')]))"
    using assms by (rule gate_forward_fails)
  moreover have "map (map_of (requestHeaders request e now))
           [''x-trackfast-validated'', ''x-trackfast-event'', ''x-trackfast-timestamp'']
         = [Some ''true'', Some e, Some now]"
    by (simp add: requestHeaders_def update_conv')
  moreover have "new_NextRequest (req_url request) (req_method request)
           (requestHeaders request e now) (req_body request)
         = Inl (ReferenceError ''NextRequest is not defined'')"
    by (simp add: new_NextRequest_def)
  ultimately show ?thesis
    using gate_never_forwards by blast
qed

theorem passing_request_answered_500_witness:
  "validateTrackingRequest example_parser example_schemas ''2024-01-01T00:00:00.000Z''
     (example_request signup_text)
   = Respond \<lparr>status = 500,
              body = JObj [(''error'', JStr ''Internal validation error''),
                           (''details'', JStr ''Event validation system error'')]\<rparr>"
proof -
  have e: "get_prop (JObj [(''event'', JStr ''user_signed_up''),
                  (''properties'', JObj [(''email'', JStr ''test@example.com''),
                                         (''plan'', JStr ''starter'')])]) ''event''
           = Some (JStr ''user_signed_up'')"
    by simp
  have ne: "''user_signed_up'' \<noteq> []"
    by simp
  note t = passing_request_answered_500
    [where JSON_parse = example_parser and request = "example_request signup_text"
       and schemas = example_schemas and now = "''2024-01-01T00:00:00.000Z''",
     OF signup_passes [THEN conjunct1] e ne signup_passes [THEN conjunct2, THEN conjunct1]
        signup_passes [THEN conjunct2, THEN conjunct2]]
  from t [THEN conjunct2, THEN conjunct2, THEN conjunct1] show ?thesis
    by (simp add: json_response_def)
qed

text \<open>
  Claim C5. The result of validating a request does not depend on the instant of
  validation: the timestamp is put on a local copy of the headers only, which never leaves
  the middleware, so two validations of the same payload give identical results. The
  middleware keeps no state, and the generated validator is a function of the event name
  and the properties.
\<close>

theorem validation_same_at_every_instant:
  "validateTrackingRequest JSON_parse schemas now1 request
   = validateTrackingRequest JSON_parse schemas now2 request"
  by (auto simp add: validateTrackingRequest_def validateTrackingRequest_try_def
      new_NextRequest_def
      split: sum.splits if_splits option.splits json.splits validation_outcome.splits)

text \<open>
  Claim C6 holds for every name outside \<^verbatim>\<open>Object.prototype\<close>
  (\<open>unknown_event_enumerated\<close>), and the code misses the names inside it: the
  \<^verbatim>\<open>in\<close> test finds \<open>toString\<close> in a table that does not hold it, so the
  request goes to the validator. It is answered with the fixed 500 when the validator
  returns and with a validation failure when it throws, never with the unknown-event
  response and the known names.
\<close>

theorem inherited_name_not_reported_unknown:
  "''toString'' \<notin> set (Object_keys [(''user_signed_up'', ()), (''pageview'', ())])
   \<and> (\<forall>validator now.
        validateTrackingRequest example_parser
          \<lparr>eventSchemas = [(''user_signed_up'', ()), (''pageview'', ())], validateEvent = validator\<rparr>
          now (example_request toString_text)
        \<noteq> Respond (unknown_event_response ''toString'' [''user_signed_up'', ''pageview'']))
   \<and> (\<forall>validator now.
        validateTrackingRequest example_parser
          \<lparr>eventSchemas = [(''user_signed_up'', ()), (''pageview'', ())], validateEvent = validator\<rparr>
          now (example_request toString_text)
        = (case validator ''toString'' (JObj []) of
             Returns \<Rightarrow>
               Respond (json_response 500 (JObj
                 [(''error'', JStr ''Internal validation error''),
                  (''details'', JStr ''Event validation system error'')]))
           | Throws msg \<Rightarrow>
               Respond (validation_failed_response msg ''toString'' (Some (JObj [])))))"
proof (intro conjI allI)
  show "''toString'' \<notin> set (Object_keys [(''user_signed_up'', ()), (''pageview'', ())])"
    by (simp add: Object_keys_def)
next
  fix validator now
  have p: "example_parser (req_body (example_request toString_text))
           = Inr (JObj [(''event'', JStr ''toString''), (''properties'', JObj [])])"
    by (simp add: example_parser_def example_request_def toString_text_def)
  have i: "js_in ''toString'' [(''user_signed_up'', ()), (''pageview'', ())]"
    by (simp add: js_in_def Object_prototype_keys_def)
  show "validateTrackingRequest example_parser
          \<lparr>eventSchemas = [(''user_signed_up'', ()), (''pageview'', ())], validateEvent = validator\<rparr>
          now (example_request toString_text)
        \<noteq> Respond (unknown_event_response ''toString'' [''user_signed_up'', ''pageview''])"
    by (cases "validator ''toString'' (JObj [])")
      (simp_all add: validateTrackingRequest_def validateTrackingRequest_try_def p i
        properties_or_empty_def unknown_event_response_def validation_failed_response_def
        new_NextRequest_def json_response_def obj_def)
next
  fix validator now
  have p: "example_parser (req_body (example_request toString_text))
           = Inr (JObj [(''event'', JStr ''toString''), (''properties'', JObj [])])"
    by (simp add: example_parser_def example_request_def toString_text_def)
  have i: "js_in ''toString'' [(''user_signed_up'', ()), (''pageview'', ())]"
    by (simp add: js_in_def Object_prototype_keys_def)
  show "validateTrackingRequest example_parser
          \<lparr>eventSchemas = [(''user_signed_up'', ()), (''pageview'', ())], validateEvent = validator\<rparr>
          now (example_request toString_text)
        = (case validator ''toString'' (JObj []) of
             Returns \<Rightarrow>
               Respond (json_response 500 (JObj
                 [(''error'', JStr ''Internal validation error''),
                  (''details'', JStr ''Event validation system error'')]))
           | Throws msg \<Rightarrow>
               Respond (validation_failed_response msg ''toString'' (Some (JObj []))))"
    by (cases "validator ''toString'' (JObj [])")
      (simp_all add: validateTrackingRequest_def validateTrackingRequest_try_def p i
        properties_or_empty_def new_NextRequest_def obj_def)
qed

text \<open>
  Claim C3, as stated, fails: the handler takes the marker header at its word. The forged
  request carries \<open>x-trackfast-validated: true\<close> and an event that the gate rejects;
  no run of the gate hands this request on, and \<^verbatim>\<open>POST\<close> reports it as validated
  and tells the providers so.
\<close>

theorem forged_marker_is_trusted:
  "get_prop (body (POST example_parser example_env (\<lambda>r. Response True) example_clock
      forged_request)) ''validated'' = Some (JBool True)
   \<and> map (\<lambda>p. map_option (\<lambda>b. get_prop b ''$validated'')
        (sent_properties p (fetch_body (provider_request example_env example_clock
           ''unknown_event'' (Some (JObj [])) (isValidated forged_request) p)))) [PostHog, GA4]
     = [Some (Some (JBool True)), Some (Some (JBool True))]
   \<and> validateTrackingRequest example_parser example_schemas ''2024-01-01T00:00:00.000Z''
        forged_request
     = Respond (unknown_event_response ''unknown_event'' [''user_signed_up'', ''pageview''])
   \<and> (\<forall>JSON_parse (schemas :: unit schema_module) now request.
        validateTrackingRequest JSON_parse schemas now request \<noteq> Next_request forged_request)"
proof (intro conjI allI)
  have p: "example_parser (req_body forged_request)
           = Inr (JObj [(''event'', JStr ''unknown_event''), (''properties'', JObj [])])"
    by (simp add: example_parser_def forged_request_def unknown_text_def)
  have e: "get_prop (JObj [(''event'', JStr ''unknown_event''), (''properties'', JObj [])]) ''event''
           = Some (JStr ''unknown_event'')"
    by simp
  have ne: "''unknown_event'' \<noteq> []"
    by simp
  have v: "isValidated forged_request"
    by (simp add: isValidated_def forged_request_def)
  show "get_prop (body (POST example_parser example_env (\<lambda>r. Response True) example_clock
      forged_request)) ''validated'' = Some (JBool True)"
    by (simp add: POST_def
        POST_try_dispatches [where JSON_parse = example_parser and request = forged_request,
          OF p e ne]
        v tracked_response_def json_response_def obj_def)
  show "map (\<lambda>p. map_option (\<lambda>b. get_prop b ''$validated'')
        (sent_properties p (fetch_body (provider_request example_env example_clock
           ''unknown_event'' (Some (JObj [])) (isValidated forged_request) p)))) [PostHog, GA4]
     = [Some (Some (JBool True)), Some (Some (JBool True))]"
    by (simp add: sent_properties_enhanced v enhancedProperties_def)
  show "validateTrackingRequest example_parser example_schemas ''2024-01-01T00:00:00.000Z''
        forged_request
     = Respond (unknown_event_response ''unknown_event'' [''user_signed_up'', ''pageview''])"
    using unknown_event_enumerated [where JSON_parse = example_parser
        and request = forged_request and schemas = example_schemas, OF p e ne]
    by (simp add: Object_keys_def example_schemas_def Object_prototype_keys_def)
next
  fix JSON_parse and schemas :: "unit schema_module" and now request
  show "validateTrackingRequest JSON_parse schemas now request \<noteq> Next_request forged_request"
    by (rule gate_never_forwards)
qed

text \<open>
  Claim C3, amended. \<^verbatim>\<open>POST\<close> treats an event as validated exactly when the
  \<open>x-trackfast-validated\<close> header of the request it receives is \<open>true\<close>, in its
  response and in the \<open>$validated\<close> property it sends to every provider; it verifies
  nothing about who set the header.
\<close>

theorem marker_trusted_by_header_value:
  assumes "JSON_parse (req_body request) = Inr payload"
    and "get_prop payload ''event'' = Some (JStr e)" and "e \<noteq> []"
  shows "get_prop (body (POST JSON_parse env net clk request)) ''validated''
         = Some (JBool (map_of (req_headers request) ''x-trackfast-validated'' = Some ''true''))
       \<and> sent_property p (fetch_body (provider_request env clk e (get_prop payload ''properties'')
             (isValidated request) p)) ''$validated''
         = Some (JBool (map_of (req_headers request) ''x-trackfast-validated'' = Some ''true''))"
proof -
  have "POST_try JSON_parse env net clk request
         = Inr (tracked_response e (isValidated request)
             (dispatch env net clk e (get_prop payload ''properties'') (isValidated request))
             (t_response clk))"
    using assms by (rule POST_try_dispatches)
  then have "get_prop (body (POST JSON_parse env net clk request)) ''validated''
      = Some (JBool (map_of (req_headers request) ''x-trackfast-validated'' = Some ''true''))"
    by (simp add: POST_def tracked_response_def json_response_def obj_def isValidated_def)
  moreover have "sent_property p (fetch_body (provider_request env clk e
             (get_prop payload ''properties'') (isValidated request) p)) ''$validated''
         = Some (JBool (map_of (req_headers request) ''x-trackfast-validated'' = Some ''true''))"
    by (simp add: sent_property_enhanced enhancedProperties_def update_conv' isValidated_def)
  ultimately show ?thesis by blast
qed

theorem marker_trusted_by_header_value_witness:
  "get_prop (body (POST example_parser example_env (\<lambda>r. Response True) example_clock
      (example_request signup_text))) ''validated''
   = Some (JBool False)
   \<and> get_prop (body (POST example_parser example_env (\<lambda>r. Response True) example_clock
      ((example_request signup_text)\<lparr>req_headers := [(''x-trackfast-validated'', ''true'')]\<rparr>)))
      ''validated''
   = Some (JBool True)"
proof -
  let ?payload = "JObj [(''event'', JStr ''user_signed_up''),
                      (''properties'', JObj [(''email'', JStr ''test@example.com''),
                                             (''plan'', JStr ''starter'')])]"
  let ?marked = "(example_request signup_text)\<lparr>req_headers := [(''x-trackfast-validated'', ''true'')]\<rparr>"
  have p: "example_parser (req_body (example_request signup_text)) = Inr ?payload"
    by (simp add: example_parser_def example_request_def signup_text_def)
  have p': "example_parser (req_body ?marked) = Inr ?payload"
    by (simp add: example_parser_def example_request_def signup_text_def)
  have e: "get_prop ?payload ''event'' = Some (JStr ''user_signed_up'')"
    by simp
  have ne: "''user_signed_up'' \<noteq> []"
    by simp
  note plain_case = marker_trusted_by_header_value
    [where JSON_parse = example_parser and request = "example_request signup_text"
       and env = example_env and net = "\<lambda>r. Response True" and clk = example_clock,
     OF p e ne, THEN conjunct1]
  note marked_case = marker_trusted_by_header_value
    [where JSON_parse = example_parser and request = ?marked
       and env = example_env and net = "\<lambda>r. Response True" and clk = example_clock,
     OF p' e ne, THEN conjunct1]
  have "map_of (req_headers (example_request signup_text)) ''x-trackfast-validated'' \<noteq> Some ''true''"
    by (simp add: example_request_def)
  moreover have "map_of (req_headers ?marked) ''x-trackfast-validated'' = Some ''true''"
    by simp
  ultimately show ?thesis
    using plain_case marked_case by simp
qed

section \<open>Internal faults\<close>

lemma POST_production_no_details:
  assumes "env ''NODE_ENV'' \<noteq> Some ''development''"
  shows "get_prop (body (POST JSON_parse env net clk request)) ''details'' = None"
  using assms
  by (auto simp add: POST_def POST_try_def tracked_response_def json_response_def obj_def Let_def
      split: sum.splits if_splits option.splits json.splits)

text \<open>
  Claim C9. A fault inside either handler is caught and answered with a generic 500. In
  production posture (\<open>NODE_ENV\<close> is not \<open>development\<close>) the body of \<^verbatim>\<open>POST\<close> is
  the fixed error text alone, whatever the fault and its message, and no response of
  \<^verbatim>\<open>POST\<close> has a \<open>details\<close> field; the middleware's body is fixed in every posture.
\<close>

theorem internal_fault_answered_generically:
  "(POST_try JSON_parse env net clk request = Inl error
      \<and> env ''NODE_ENV'' \<noteq> Some ''development'' \<longrightarrow>
      POST JSON_parse env net clk request
      = json_response 500 (JObj [(''error'', JStr ''Internal server error'')]))
   \<and> (env ''NODE_ENV'' \<noteq> Some ''development'' \<longrightarrow>
      get_prop (body (POST JSON_parse env net clk request)) ''details'' = None)
   \<and> (validateTrackingRequest_try JSON_parse schemas now request = Inl error \<longrightarrow>
      validateTrackingRequest JSON_parse schemas now request
      = Respond (json_response 500 (JObj
          [(''error'', JStr ''Internal validation error''),
           (''details'', JStr ''Event validation system error'')])))"
proof (intro conjI impI)
  assume "POST_try JSON_parse env net clk request = Inl error
      \<and> env ''NODE_ENV'' \<noteq> Some ''development''"
  then show "POST JSON_parse env net clk request
      = json_response 500 (JObj [(''error'', JStr ''Internal server error'')])"
    by (simp add: POST_def obj_def)
next
  assume "env ''NODE_ENV'' \<noteq> Some ''development''"
  then show "get_prop (body (POST JSON_parse env net clk request)) ''details'' = None"
    by (rule POST_production_no_details)
next
  assume "validateTrackingRequest_try JSON_parse schemas now request = Inl error"
  then show "validateTrackingRequest JSON_parse schemas now request
      = Respond (json_response 500 (JObj
          [(''error'', JStr ''Internal validation error''),
           (''details'', JStr ''Event validation system error'')]))"
    by (simp add: validateTrackingRequest_def obj_def)
qed

theorem internal_fault_answered_generically_witness:
  "POST example_parser example_env (\<lambda>r. Response True) example_clock (example_request ''null'')
   = json_response 500 (JObj [(''error'', JStr ''Internal server error'')])
   \<and> validateTrackingRequest example_parser example_schemas ''2024-01-01T00:00:00.000Z''
       (example_request ''null'')
     = Respond (json_response 500 (JObj
          [(''error'', JStr ''Internal validation error''),
           (''details'', JStr ''Event validation system error'')]))"
proof -
  have a: "POST_try example_parser example_env (\<lambda>r. Response True) example_clock
             (example_request ''null'')
           = Inl (TypeError ''Cannot destructure property event of payload as it is null.'')"
    by (simp add: POST_try_def example_parser_def example_request_def)
  have b: "example_env ''NODE_ENV'' \<noteq> Some ''development''"
    by (simp add: example_env_def)
  have c: "validateTrackingRequest_try example_parser example_schemas ''2024-01-01T00:00:00.000Z''
             (example_request ''null'')
           = Inl (TypeError ''Cannot read properties of null (reading event)'')"
    by (simp add: validateTrackingRequest_try_def example_parser_def example_request_def)
  from a b
    internal_fault_answered_generically
      [of example_parser example_env "\<lambda>r. Response True" example_clock "example_request ''null''"
          "TypeError ''Cannot destructure property event of payload as it is null.''"]
  have "POST example_parser example_env (\<lambda>r. Response True) example_clock (example_request ''null'')
   = json_response 500 (JObj [(''error'', JStr ''Internal server error'')])"
    by blast
  moreover from c
    internal_fault_answered_generically
      [of example_parser example_env "\<lambda>r. Response True" example_clock "example_request ''null''"
          "TypeError ''Cannot read properties of null (reading event)''"
          example_schemas "''2024-01-01T00:00:00.000Z''"]
  have "validateTrackingRequest example_parser example_schemas ''2024-01-01T00:00:00.000Z''
       (example_request ''null'')
     = Respond (json_response 500 (JObj
          [(''error'', JStr ''Internal validation error''),
           (''details'', JStr ''Event validation system error'')]))"
    by blast
  ultimately show ?thesis by blast
qed

end
